theory Spec2Isabelle
  imports Complex_Main "HOL-Library.Multiset" "HOL-Library.AList"
begin

section \<open>The map viewer's view-state derivation (src/src/App.js)\<close>

text \<open>
  The component \<open>App\<close> keeps eight state variables and derives from them, and from the
  static feature collection \<open>locations\<close>, the filtered collection, the owner table, the
  farm list and the outcome of a search. The derivations are modelled as functions of
  their dependencies, the event handlers as functions on a record of the state.

  What the code calls but does not define (the string methods \<open>toLowerCase\<close> and
  \<open>localeCompare\<close>, \<open>new Date(s).getFullYear()\<close>, Leaflet's \<open>L.geoJSON(f).getBounds()\<close>)
  is a field of the record \<open>platform\<close>, passed to every function that uses it, and so
  are the operations of the language on numbers: what is proved holds for every such
  platform, under the hypotheses a theorem states.
\<close>

subsection \<open>Data\<close>

text \<open>
  The fields \<open>name\<close>, \<open>owner\<close> and \<open>date\<close> of a feature's \<open>properties\<close> are optional
  texts: \<open>None\<close> is JavaScript's \<open>undefined\<close> (or \<open>null\<close>). The \<open>properties\<close> object itself
  may be missing, which the optional chaining \<open>properties?.name\<close> allows for. The
  elements of a features array are feature objects.
\<close>

record properties =
  name :: "string option"
  owner :: "string option"
  date :: "string option"

record 'g feature =
  geometry :: 'g
  properties :: "properties option"

text \<open>
  A collection has its \<open>type\<close> tag and its \<open>features\<close> array; line 30 of App.js allows
  for a store without one.
\<close>

record 'g collection =
  type_tag :: string
  features :: "'g feature list option"

text \<open>
  A JavaScript number (an IEEE double) is a value of the type parameter \<open>'d\<close>; the
  operations of the language on numbers that the code uses are fields of the platform
  below. The corners of a bounding box are numbers, in degrees.
\<close>

record 'd corners =
  west :: 'd
  south :: 'd
  east :: 'd
  north :: 'd

text \<open>
  A Leaflet \<open>LatLngBounds\<close>. \<open>L.geoJSON(f).getBounds()\<close> starts from bounds without
  corners and extends them by every coordinate of the feature: for a feature without
  coordinates the result is \<open>Unset\<close>.
\<close>

datatype 'd latLngBounds = Unset | Extent "'d corners"

subsection \<open>Run-time errors\<close>

text \<open>
  Reading a property of \<open>undefined\<close>, or calling a method on it, throws a \<open>TypeError\<close>.
\<close>

datatype js_error = TypeError

text \<open>
  \<open>getEast()\<close> is \<open>this._northEast.lng\<close> and \<open>getWest()\<close> is \<open>this._southWest.lng\<close>:
  on bounds without corners they read a property of \<open>undefined\<close>.
\<close>

fun getEast :: "'d latLngBounds \<Rightarrow> js_error + 'd" where
  "getEast Unset = Inl TypeError"
| "getEast (Extent c) = Inr (east c)"

fun getWest :: "'d latLngBounds \<Rightarrow> js_error + 'd" where
  "getWest Unset = Inl TypeError"
| "getWest (Extent c) = Inr (west c)"

subsection \<open>The platform\<close>

text \<open>What \<open>getFullYear\<close> returns: a whole number, or \<open>NaN\<close> for an invalid date.\<close>

datatype jsnumber = NaN | Num int

fun isNaN :: "jsnumber \<Rightarrow> bool" where
  "isNaN NaN = True"
| "isNaN (Num n) = False"

text \<open>\<open>a <= y\<close> on numbers: a comparison with \<open>NaN\<close> is false.\<close>

fun num_le :: "jsnumber \<Rightarrow> int \<Rightarrow> bool" where
  "num_le NaN y = False"
| "num_le (Num n) y = (n \<le> y)"

text \<open>
  The platform: \<open>s.toLowerCase()\<close>, \<open>new Date(s).getFullYear()\<close>, \<open>a.localeCompare(b)\<close>,
  \<open>L.geoJSON(f).getBounds()\<close>; on numbers \<open>a - b\<close>, \<open>a <= b\<close>, \<open>isNaN(a)\<close> and the sign
  of a comparator's result as \<open>sort\<close> reads it (\<open>-1\<close>, \<open>0\<close> or \<open>1\<close>, and \<open>0\<close> for \<open>NaN\<close>);
  and \<open>methodText k\<close>, the text that the method \<open>Object.prototype[k]\<close> turns into when
  a number is added to it.
\<close>

record ('g, 'd) platform =
  toLowerCase :: "string \<Rightarrow> string"
  getFullYear :: "string \<Rightarrow> jsnumber"
  localeCompare :: "string \<Rightarrow> string \<Rightarrow> int"
  getBounds :: "'g feature \<Rightarrow> 'd latLngBounds"
  numMinus :: "'d \<Rightarrow> 'd \<Rightarrow> 'd"
  numLessEq :: "'d \<Rightarrow> 'd \<Rightarrow> bool"
  numIsNaN :: "'d \<Rightarrow> bool"
  numSign :: "'d \<Rightarrow> int"
  methodText :: "string \<Rightarrow> string"

text \<open>
  Truthiness of an optional text, as \<open>if (owner)\<close>, \<open>dateStr ? .. : ..\<close> and
  \<open>filter((f) => f.name)\<close> test it: \<open>undefined\<close> and the empty string are falsy.
\<close>

fun truthy :: "string option \<Rightarrow> bool" where
  "truthy None = False"
| "truthy (Some s) = (s \<noteq> [])"

text \<open>\<open>feature?.properties?.date\<close>, \<open>properties?.name\<close>, \<open>properties?.owner\<close>.\<close>

definition prop_date :: "'g feature \<Rightarrow> string option" where
  "prop_date feature = (case properties feature of None \<Rightarrow> None | Some p \<Rightarrow> date p)"

definition prop_name :: "'g feature \<Rightarrow> string option" where
  "prop_name feature = (case properties feature of None \<Rightarrow> None | Some p \<Rightarrow> name p)"

definition prop_owner :: "'g feature \<Rightarrow> string option" where
  "prop_owner feature = (case properties feature of None \<Rightarrow> None | Some p \<Rightarrow> owner p)"

subsection \<open>The year filter (App.js, lines 29-43)\<close>

text \<open>
  Line 35: \<open>const yearParsed = dateStr ? new Date(dateStr).getFullYear() : NaN\<close>.
\<close>

definition yearParsed :: "('g, 'd) platform \<Rightarrow> 'g feature \<Rightarrow> jsnumber" where
  "yearParsed P feature =
     (case prop_date feature of
        None \<Rightarrow> NaN
      | Some dateStr \<Rightarrow> if truthy (Some dateStr) then getFullYear P dateStr else NaN)"

text \<open>The callback of \<open>locations.features.filter\<close>, lines 32-37.\<close>

definition keepFeature :: "('g, 'd) platform \<Rightarrow> int \<Rightarrow> bool \<Rightarrow> 'g feature \<Rightarrow> bool" where
  "keepFeature P year yearFilterEnabled feature =
     (if \<not> yearFilterEnabled then True
      else \<not> isNaN (yearParsed P feature) \<and> num_le (yearParsed P feature) year)"

definition filteredLocations ::
  "('g, 'd) platform \<Rightarrow> 'g collection \<Rightarrow> int \<Rightarrow> bool \<Rightarrow> 'g collection" where
  "filteredLocations P locations year yearFilterEnabled =
     (case features locations of
        None \<Rightarrow> locations
      | Some fs \<Rightarrow>
          \<lparr>type_tag = ''FeatureCollection'',
           features = Some (filter (keepFeature P year yearFilterEnabled) fs)\<rparr>)"

subsection \<open>\<open>Array.prototype.sort\<close>\<close>

text \<open>
  \<open>xs.sort(cmp)\<close> is modelled as the stable insertion sort by the comparator: an element
  goes before the first element it does not compare greater than. For a consistent
  comparator this is the order ECMAScript prescribes (sorted, equal elements in their
  input order).
\<close>

fun js_insert :: "('a \<Rightarrow> 'a \<Rightarrow> 'n::{zero,linorder}) \<Rightarrow> 'a \<Rightarrow> 'a list \<Rightarrow> 'a list" where
  "js_insert cmp x [] = [x]"
| "js_insert cmp x (y # ys) =
     (if cmp x y \<le> 0 then x # y # ys else y # js_insert cmp x ys)"

fun js_sort :: "('a \<Rightarrow> 'a \<Rightarrow> 'n::{zero,linorder}) \<Rightarrow> 'a list \<Rightarrow> 'a list" where
  "js_sort cmp [] = []"
| "js_sort cmp (x # xs) = js_insert cmp x (js_sort cmp xs)"

text \<open>
  A consistent comparator, in ECMAScript's sense, as far as the order needs it: any two
  elements are comparable, and \<open>cmp a b \<le> 0\<close> is transitive.
\<close>

definition consistentComparator :: "('a \<Rightarrow> 'a \<Rightarrow> 'n::{zero,linorder}) \<Rightarrow> bool" where
  "consistentComparator cmp =
     ((\<forall>a b. cmp a b \<le> 0 \<or> cmp b a \<le> 0) \<and>
      (\<forall>a b c. cmp a b \<le> 0 \<and> cmp b c \<le> 0 \<longrightarrow> cmp a c \<le> 0))"

subsection \<open>The owner table (App.js, lines 45-56)\<close>

text \<open>
  \<open>ownerCounts\<close> starts as the empty object \<open>{}\<close> and is used as a dictionary. Its own
  properties are modelled as an association list in insertion order, which is the order
  \<open>Object.entries\<close> lists keys in (keys that are array indices apart, which it lists
  first). A value stored under a key is a number or, after a text has been added to, a
  text.
\<close>

datatype count = Number nat | Text string

text \<open>
  An empty object is not an empty dictionary: it inherits the methods of
  \<open>Object.prototype\<close>, and the accessor \<open>__proto__\<close>, whose getter returns the prototype
  and whose setter ignores a value that is not an object.
\<close>

definition prototypeMethods :: "string list" where
  "prototypeMethods =
     [''constructor'', ''hasOwnProperty'', ''isPrototypeOf'', ''propertyIsEnumerable'',
      ''toLocaleString'', ''toString'', ''valueOf'', ''__defineGetter__'',
      ''__defineSetter__'', ''__lookupGetter__'', ''__lookupSetter__'']"

text \<open>
  \<open>(ownerCounts[owner] || 0) + 1\<close>. An own property is read first: a number is
  incremented (\<open>0 || 0\<close> is \<open>0\<close>), a text gets \<open>1\<close> appended (the empty text is falsy).
  Without an own property the read goes to the prototype: the prototype object and a
  method are truthy, and \<open>+ 1\<close> appends \<open>1\<close> to their text. Otherwise the read gives
  \<open>undefined\<close>, and \<open>undefined || 0\<close> is \<open>0\<close>.
\<close>

definition incremented :: "('g, 'd) platform \<Rightarrow> (string \<times> count) list \<Rightarrow> string \<Rightarrow> count" where
  "incremented P ownerCounts ow =
     (case map_of ownerCounts ow of
        Some (Number c) \<Rightarrow> Number (c + 1)
      | Some (Text t) \<Rightarrow> if t = [] then Number 1 else Text (t @ ''1'')
      | None \<Rightarrow>
          if ow = ''__proto__'' then Text (''[object Object]'' @ ''1'')
          else if List.member prototypeMethods ow then Text (methodText P ow @ ''1'')
          else Number 1)"

text \<open>
  \<open>ownerCounts[owner] = v\<close>: under \<open>__proto__\<close> the assignment calls the inherited setter,
  which ignores a number and a text; under any other key it sets an own property.
\<close>

definition assign :: "(string \<times> count) list \<Rightarrow> string \<Rightarrow> count \<Rightarrow> (string \<times> count) list" where
  "assign ownerCounts ow v =
     (if ow = ''__proto__'' then ownerCounts else AList.update ow v ownerCounts)"

text \<open>The body of the \<open>forEach\<close>, lines 47-52.\<close>

definition countOwner ::
  "('g, 'd) platform \<Rightarrow> (string \<times> count) list \<Rightarrow> 'g feature \<Rightarrow> (string \<times> count) list" where
  "countOwner P ownerCounts f =
     (case prop_owner f of
        None \<Rightarrow> ownerCounts
      | Some ow \<Rightarrow>
          if truthy (Some ow)
          then assign ownerCounts ow (incremented P ownerCounts ow)
          else ownerCounts)"

text \<open>
  An entry \<open>{owner, count}\<close> of the result is the pair \<open>(owner, count)\<close>. When the
  filtered collection has no features array, \<open>filteredLocations.features.forEach\<close> calls
  a method on \<open>undefined\<close>.
\<close>

definition uniqueOwners ::
  "('g, 'd) platform \<Rightarrow> 'g collection \<Rightarrow> js_error + (string \<times> count) list" where
  "uniqueOwners P filtered =
     (case features filtered of
        None \<Rightarrow> Inl TypeError
      | Some fs \<Rightarrow>
          Inr (js_sort (\<lambda>a b. localeCompare P (fst a) (fst b))
                 (foldl (countOwner P) [] fs)))"

text \<open>
  An owner text that is the name of nothing an empty object inherits, so that
  \<open>ownerCounts\<close> behaves as a dictionary at it.
\<close>

definition ordinaryKey :: "string \<Rightarrow> bool" where
  "ordinaryKey ow = (ow \<noteq> ''__proto__'' \<and> \<not> List.member prototypeMethods ow)"

text \<open>The number stored under a key, for stating what the table counts.\<close>

fun numberOf :: "count \<Rightarrow> nat" where
  "numberOf (Number c) = c"
| "numberOf (Text t) = 0"

definition storedNumber :: "(string \<times> count) list \<Rightarrow> string \<Rightarrow> nat" where
  "storedNumber ownerCounts ow =
     (case map_of ownerCounts ow of None \<Rightarrow> 0 | Some v \<Rightarrow> numberOf v)"

definition allNumbers :: "(string \<times> count) list \<Rightarrow> bool" where
  "allNumbers ownerCounts = list_all (\<lambda>e. snd e = Number (numberOf (snd e))) ownerCounts"

subsection \<open>The farm list (App.js, lines 58-72)\<close>

record 'd farm =
  farm_name :: "string option"
  farm_owner :: "string option"
  area :: 'd

text \<open>
  The callback of \<open>map\<close>, lines 59-65: the area is \<open>bounds.getEast() - bounds.getWest()\<close>,
  and the callback throws when the bounds have no corners.
\<close>

definition toFarm :: "('g, 'd) platform \<Rightarrow> 'g feature \<Rightarrow> js_error + 'd farm" where
  "toFarm P f =
     (case getEast (getBounds P f) of
        Inl e \<Rightarrow> Inl e
      | Inr ea \<Rightarrow>
          (case getWest (getBounds P f) of
             Inl e \<Rightarrow> Inl e
           | Inr we \<Rightarrow>
               Inr \<lparr>farm_name = prop_name f, farm_owner = prop_owner f,
                    area = numMinus P ea we\<rparr>))"

text \<open>\<open>xs.map(g)\<close> for a callback that may throw: the first exception ends the call.\<close>

fun mapThrowing :: "('a \<Rightarrow> js_error + 'b) \<Rightarrow> 'a list \<Rightarrow> js_error + 'b list" where
  "mapThrowing g [] = Inr []"
| "mapThrowing g (x # xs) =
     (case g x of
        Inl e \<Rightarrow> Inl e
      | Inr y \<Rightarrow> (case mapThrowing g xs of Inl e \<Rightarrow> Inl e | Inr ys \<Rightarrow> Inr (y # ys)))"

text \<open>
  \<open>a.area - b.area\<close>, as \<open>sort\<close> reads it.
\<close>

definition compareAreas :: "('g, 'd) platform \<Rightarrow> 'd farm \<Rightarrow> 'd farm \<Rightarrow> int" where
  "compareAreas P a b = numSign P (numMinus P (area a) (area b))"

text \<open>
  \<open>a.name.localeCompare(b.name)\<close>. The comparator only ever sees farms that passed
  \<open>filter((f) => f.name)\<close>, whose names are texts; the branches for a missing name,
  where the call would throw, are not reached (lemma \<open>compareNames_named\<close>).
\<close>

definition compareNames :: "('g, 'd) platform \<Rightarrow> 'd farm \<Rightarrow> 'd farm \<Rightarrow> int" where
  "compareNames P a b =
     (case farm_name a of
        None \<Rightarrow> 0
      | Some x \<Rightarrow> (case farm_name b of None \<Rightarrow> 0 | Some y \<Rightarrow> localeCompare P x y))"


definition uniqueFarms ::
  "('g, 'd) platform \<Rightarrow> 'g collection \<Rightarrow> bool \<Rightarrow> js_error + 'd farm list" where
  "uniqueFarms P filtered rankBySize =
     (case features filtered of
        None \<Rightarrow> Inl TypeError
      | Some fs \<Rightarrow>
          (case mapThrowing (toFarm P) fs of
             Inl e \<Rightarrow> Inl e
           | Inr farms \<Rightarrow>
               (let named = filter (\<lambda>f. truthy (farm_name f)) farms
                in Inr (if rankBySize
                        then js_sort (compareAreas P) named
                        else js_sort (compareNames P) named))))"


subsection \<open>The style of a polygon (App.js, lines 212-221)\<close>

record path_style =
  color :: string
  weight :: nat
  fillColor :: string
  fillOpacity :: real

text \<open>\<open>highlightedOwner && feature.properties?.owner === highlightedOwner\<close>.\<close>

definition isHighlighted :: "string option \<Rightarrow> 'g feature \<Rightarrow> bool" where
  "isHighlighted highlightedOwner feature =
     (truthy highlightedOwner \<and> prop_owner feature = highlightedOwner)"

definition style :: "string option \<Rightarrow> 'g feature \<Rightarrow> path_style" where
  "style highlightedOwner feature =
     \<lparr>color = (if isHighlighted highlightedOwner feature then ''#ff0000'' else ''#663300''),
      weight = (if isHighlighted highlightedOwner feature then 3 else 2),
      fillColor = (if isHighlighted highlightedOwner feature then ''#ffaaaa'' else ''#ffcc99''),
      fillOpacity = 1 / 2\<rparr>"

subsection \<open>The search (App.js, lines 74-90)\<close>

text \<open>
  \<open>feature.properties?.name?.toLowerCase() === searchQuery.toLowerCase()\<close>: a feature
  without a name gives \<open>undefined\<close>, which equals no text.
\<close>

definition isMatch :: "('g, 'd) platform \<Rightarrow> string \<Rightarrow> 'g feature \<Rightarrow> bool" where
  "isMatch P searchQuery feature =
     (case prop_name feature of
        None \<Rightarrow> False
      | Some n \<Rightarrow> toLowerCase P n = toLowerCase P searchQuery)"

text \<open>
  The \<open>forEach\<close> of lines 78-87. It carries the bounds last passed to
  \<open>setSelectedBounds\<close> (React keeps the last value set during one event) and the flag
  \<open>found\<close>; nothing leaves the loop early.
\<close>

fun searchEach ::
  "('g, 'd) platform \<Rightarrow> string \<Rightarrow> 'g feature list \<Rightarrow> 'd latLngBounds option \<times> bool \<Rightarrow> 'd latLngBounds option \<times> bool" where
  "searchEach P searchQuery [] acc = acc"
| "searchEach P searchQuery (feature # rest) (sel, found) =
     (if isMatch P searchQuery feature
      then searchEach P searchQuery rest (Some (getBounds P feature), True)
      else searchEach P searchQuery rest (sel, found))"

section \<open>The earlier version of the component (src/unnamed/part_000)\<close>

text \<open>
  The file has the year filter (lines 25-39) and the search (lines 41-57), and neither
  the owner table, the farm list nor the highlighting. Its definitions are translated
  from its own text.
\<close>

definition yearParsed_part000 :: "('g, 'd) platform \<Rightarrow> 'g feature \<Rightarrow> jsnumber" where
  "yearParsed_part000 P feature =
     (case prop_date feature of
        None \<Rightarrow> NaN
      | Some dateStr \<Rightarrow> if truthy (Some dateStr) then getFullYear P dateStr else NaN)"

definition filteredLocations_part000 ::
  "('g, 'd) platform \<Rightarrow> 'g collection \<Rightarrow> int \<Rightarrow> bool \<Rightarrow> 'g collection" where
  "filteredLocations_part000 P locations year yearFilterEnabled =
     (case features locations of
        None \<Rightarrow> locations
      | Some fs \<Rightarrow>
          \<lparr>type_tag = ''FeatureCollection'',
           features =
             Some (filter
               (\<lambda>feature.
                  if \<not> yearFilterEnabled then True
                  else \<not> isNaN (yearParsed_part000 P feature) \<and>
                       num_le (yearParsed_part000 P feature) year)
               fs)\<rparr>)"

definition isMatch_part000 :: "('g, 'd) platform \<Rightarrow> string \<Rightarrow> 'g feature \<Rightarrow> bool" where
  "isMatch_part000 P searchQuery feature =
     (case prop_name feature of
        None \<Rightarrow> False
      | Some n \<Rightarrow> toLowerCase P n = toLowerCase P searchQuery)"

section \<open>The state and its event handlers (src/src/App.js)\<close>

text \<open>
  The eight \<open>useState\<close> variables of lines 20-27, and the notices \<open>alert\<close> has shown so
  far, oldest first.
\<close>

record 'd app_state =
  searchQuery :: string
  selectedBounds :: "'d latLngBounds option"
  year :: int
  yearFilterEnabled :: bool
  showOwners :: bool
  showFarms :: bool
  highlightedOwner :: "string option"
  rankBySize :: bool
  alerts :: "string list"

definition initial_state :: "'d app_state" where
  "initial_state =
     \<lparr>searchQuery = [], selectedBounds = None, year = 1900, yearFilterEnabled = False,
      showOwners = False, showFarms = False, highlightedOwner = None, rankBySize = True,
      alerts = []\<rparr>"

text \<open>The collection the current render derives, from the store and the state.\<close>

definition currentFiltered :: "('g, 'd) platform \<Rightarrow> 'g collection \<Rightarrow> 'd app_state \<Rightarrow> 'g collection" where
  "currentFiltered P locations s =
     filteredLocations P locations (year s) (yearFilterEnabled s)"

text \<open>
  Lines 74-90. \<open>e.preventDefault()\<close> keeps the browser from submitting the form and
  changes nothing of the state; \<open>alert\<close> adds its notice to \<open>alerts\<close>. When the call
  throws, no state is set.
\<close>

definition handleSearch ::
  "('g, 'd) platform \<Rightarrow> 'g collection \<Rightarrow> 'd app_state \<Rightarrow> js_error + 'd app_state" where
  "handleSearch P locations s =
     (case features (currentFiltered P locations s) of
        None \<Rightarrow> Inl TypeError
      | Some fs \<Rightarrow>
          (case searchEach P (searchQuery s) fs (selectedBounds s, False) of
             (sel, found) \<Rightarrow>
               Inr (s\<lparr>selectedBounds := sel,
                      alerts := (if \<not> found then alerts s @ [''Region not found!'']
                                 else alerts s)\<rparr>)))"

text \<open>Lines 143-146: the header of the owner list.\<close>

definition toggleOwners :: "'d app_state \<Rightarrow> 'd app_state" where
  "toggleOwners s =
     s\<lparr>showOwners := \<not> showOwners s,
       highlightedOwner := (if showOwners s then None else highlightedOwner s)\<rparr>"

text \<open>
  The user's actions: typing in the search field (line 111), submitting the form
  (line 106), the header of the year filter (line 120), the slider (line 133), the
  header of the owner list, a click on an owner (line 156), the header of the farm list
  (line 175) and the ranking checkbox (line 185).
\<close>

datatype action =
    SetSearchQuery string
  | Submit
  | ToggleYearFilter
  | SetYear int
  | ToggleOwners
  | SelectOwner string
  | ToggleFarms
  | SetRankBySize bool

fun dispatch ::
  "('g, 'd) platform \<Rightarrow> 'g collection \<Rightarrow> action \<Rightarrow> 'd app_state \<Rightarrow> js_error + 'd app_state" where
  "dispatch P locations (SetSearchQuery q) s = Inr (s\<lparr>searchQuery := q\<rparr>)"
| "dispatch P locations Submit s = handleSearch P locations s"
| "dispatch P locations ToggleYearFilter s =
     Inr (s\<lparr>yearFilterEnabled := \<not> yearFilterEnabled s\<rparr>)"
| "dispatch P locations (SetYear y) s = Inr (s\<lparr>year := y\<rparr>)"
| "dispatch P locations ToggleOwners s = Inr (toggleOwners s)"
| "dispatch P locations (SelectOwner ow) s = Inr (s\<lparr>highlightedOwner := Some ow\<rparr>)"
| "dispatch P locations ToggleFarms s = Inr (s\<lparr>showFarms := \<not> showFarms s\<rparr>)"
| "dispatch P locations (SetRankBySize b) s = Inr (s\<lparr>rankBySize := b\<rparr>)"

text \<open>
  Which actions the rendered page offers: the slider (1650 to 1780) is rendered while
  the year filter is enabled, the owners while the owner list is shown (one entry per
  element of \<open>uniqueOwners\<close>), the ranking checkbox while the farm list is shown.
\<close>

definition listedOwners :: "('g, 'd) platform \<Rightarrow> 'g collection \<Rightarrow> 'd app_state \<Rightarrow> string list" where
  "listedOwners P locations s =
     (case uniqueOwners P (currentFiltered P locations s) of
        Inl e \<Rightarrow> []
      | Inr entries \<Rightarrow> map fst entries)"

fun offered :: "('g, 'd) platform \<Rightarrow> 'g collection \<Rightarrow> 'd app_state \<Rightarrow> action \<Rightarrow> bool" where
  "offered P locations s (SetYear y) = (yearFilterEnabled s \<and> 1650 \<le> y \<and> y \<le> 1780)"
| "offered P locations s (SelectOwner ow) =
     (showOwners s \<and> List.member (listedOwners P locations s) ow)"
| "offered P locations s (SetRankBySize b) = showFarms s"
| "offered P locations s a = True"

inductive reachable :: "('g, 'd) platform \<Rightarrow> 'g collection \<Rightarrow> 'd app_state \<Rightarrow> bool"
  for P :: "('g, 'd) platform" and locations :: "'g collection" where
  reachable_initial: "reachable P locations initial_state"
| reachable_step:
    "reachable P locations s \<Longrightarrow> offered P locations s a \<Longrightarrow>
     dispatch P locations a s = Inr s' \<Longrightarrow> reachable P locations s'"

section \<open>A concrete platform and store\<close>

text \<open>
  One instance of the platform, for evaluating the definitions: lower-casing of the
  letters A to Z, the year as the four leading digits of a date text, comparison of
  texts by character codes, and a geometry that is its own bounding box.
\<close>

definition lowerChar :: "char \<Rightarrow> char" where
  "lowerChar c =
     (if 65 \<le> (of_char c :: nat) \<and> (of_char c :: nat) \<le> 90
      then char_of ((of_char c :: nat) + 32) else c)"

definition asciiLower :: "string \<Rightarrow> string" where
  "asciiLower s = map lowerChar s"

definition digit :: "char \<Rightarrow> int option" where
  "digit c =
     (if 48 \<le> (of_char c :: nat) \<and> (of_char c :: nat) \<le> 57
      then Some (int (of_char c) - 48) else None)"

fun leadingYear :: "string \<Rightarrow> jsnumber" where
  "leadingYear (a # b # c # d # rest) =
     (case (digit a, digit b, digit c, digit d) of
        (Some w, Some x, Some y, Some z) \<Rightarrow> Num (1000 * w + 100 * x + 10 * y + z)
      | _ \<Rightarrow> NaN)"
| "leadingYear s = NaN"

fun codeCompare :: "string \<Rightarrow> string \<Rightarrow> int" where
  "codeCompare [] [] = 0"
| "codeCompare [] (y # ys) = - 1"
| "codeCompare (x # xs) [] = 1"
| "codeCompare (x # xs) (y # ys) =
     (if (of_char x :: nat) < of_char y then - 1
      else if (of_char y :: nat) < of_char x then 1
      else codeCompare xs ys)"

text \<open>
  Its numbers are the real numbers with exact subtraction, none of them \<open>NaN\<close>; its
  method texts are those of the V8 engine.
\<close>

definition signOfReal :: "real \<Rightarrow> int" where
  "signOfReal x = (if x < 0 then - 1 else if x = 0 then 0 else 1)"

definition nativeText :: "string \<Rightarrow> string" where
  "nativeText k =
     ''function '' @ (if k = ''constructor'' then ''Object'' else k) @ ''() { [native code] }''"

definition demo_platform :: "(real latLngBounds, real) platform" where
  "demo_platform =
     \<lparr>toLowerCase = asciiLower, getFullYear = leadingYear,
      localeCompare = codeCompare, getBounds = geometry,
      numMinus = (\<lambda>a b. a - b), numLessEq = (\<lambda>a b. a \<le> b), numIsNaN = (\<lambda>a. False),
      numSign = signOfReal, methodText = nativeText\<rparr>"

definition box :: "real \<Rightarrow> real \<Rightarrow> real \<Rightarrow> real \<Rightarrow> real latLngBounds" where
  "box w s e n = Extent \<lparr>west = w, south = s, east = e, north = n\<rparr>"

definition mkFeature ::
  "real latLngBounds \<Rightarrow> string option \<Rightarrow> string option \<Rightarrow> string option \<Rightarrow>
   real latLngBounds feature" where
  "mkFeature g n ow d =
     \<lparr>geometry = g, properties = Some \<lparr>name = n, owner = ow, date = d\<rparr>\<rparr>"

text \<open>The three records of the scenario in section 8 of the specification.\<close>

definition goedeHoop :: "real latLngBounds feature" where
  "goedeHoop =
     mkFeature (box 18 (- 34) 19 (- 33)) (Some ''Goede Hoop'') (Some ''Van Riebeeck'')
       (Some ''1657-04-02'')"

definition nieuwland :: "real latLngBounds feature" where
  "nieuwland =
     mkFeature (box 18 (- 34) 18.5 (- 33)) (Some ''Nieuwland'') (Some ''Van Riebeeck'')
       (Some ''1700-01-01'')"

definition oosthuizen :: "real latLngBounds feature" where
  "oosthuizen =
     mkFeature (box 19 (- 34) 21 (- 33)) (Some ''Oosthuizen'') None (Some ''1750-06-01'')"

definition demo_store :: "real latLngBounds collection" where
  "demo_store =
     \<lparr>type_tag = ''FeatureCollection'',
      features = Some [goedeHoop, nieuwland, oosthuizen]\<rparr>"

text \<open>A store in which two records carry the same name, up to case.\<close>

definition twin_a :: "real latLngBounds feature" where
  "twin_a = mkFeature (box 1 1 2 2) (Some ''Twin'') (Some ''A'') (Some ''1700-01-01'')"

definition twin_b :: "real latLngBounds feature" where
  "twin_b = mkFeature (box 5 5 6 6) (Some ''TWIN'') (Some ''B'') (Some ''1710-01-01'')"

definition twin_store :: "real latLngBounds collection" where
  "twin_store = \<lparr>type_tag = ''FeatureCollection'', features = Some [twin_a, twin_b]\<rparr>"

text \<open>A store with a record that has no date and one whose date is no date.\<close>

definition undated :: "real latLngBounds feature" where
  "undated = mkFeature (box 18 (- 34) 19 (- 33)) (Some ''Undated'') (Some ''Nobody'') None"

definition misdated :: "real latLngBounds feature" where
  "misdated =
     mkFeature (box 18 (- 34) 19 (- 33)) (Some ''Misdated'') None (Some ''long ago'')"

definition ragged_store :: "real latLngBounds collection" where
  "ragged_store =
     \<lparr>type_tag = ''FeatureCollection'',
      features = Some [goedeHoop, undated, misdated, oosthuizen]\<rparr>"

text \<open>
  Three states: the query \<open>twin\<close> typed in; a search for a record the year filter hides,
  after an earlier search has set the bounds; the owner list open with an owner
  highlighted.
\<close>

definition twin_query :: "real app_state" where
  "twin_query = initial_state\<lparr>searchQuery := ''twin''\<rparr>"

definition hidden_query :: "real app_state" where
  "hidden_query =
     initial_state\<lparr>searchQuery := ''Oosthuizen'',
       selectedBounds := Some (box 18 (- 34) 19 (- 33)), year := 1700,
       yearFilterEnabled := True\<rparr>"

definition highlighted_state :: "real app_state" where
  "highlighted_state =
     initial_state\<lparr>showOwners := True, highlightedOwner := Some ''Van Riebeeck''\<rparr>"

text \<open>
  Three stores for the owner table and the farm list: one with an owner called
  \<open>__proto__\<close>, one with an owner called \<open>constructor\<close>, and one with a record that has
  no coordinates.
\<close>

definition abe :: "real latLngBounds feature" where
  "abe = mkFeature (box 1 1 2 2) (Some ''Akker'') (Some ''Abe'') None"

definition proto_a :: "real latLngBounds feature" where
  "proto_a = mkFeature (box 1 1 2 2) (Some ''Bos'') (Some ''__proto__'') None"

definition proto_b :: "real latLngBounds feature" where
  "proto_b = mkFeature (box 1 1 2 2) (Some ''Duin'') (Some ''__proto__'') None"

definition proto_store :: "real latLngBounds collection" where
  "proto_store = \<lparr>type_tag = ''FeatureCollection'', features = Some [abe, proto_a, proto_b]\<rparr>"

definition constructor_a :: "real latLngBounds feature" where
  "constructor_a = mkFeature (box 1 1 2 2) (Some ''Erf'') (Some ''constructor'') None"

definition constructor_store :: "real latLngBounds collection" where
  "constructor_store =
     \<lparr>type_tag = ''FeatureCollection'', features = Some [abe, constructor_a]\<rparr>"

definition unlocated :: "real latLngBounds feature" where
  "unlocated = mkFeature Unset None None None"

definition unlocated_store :: "real latLngBounds collection" where
  "unlocated_store =
     \<lparr>type_tag = ''FeatureCollection'', features = Some [goedeHoop, unlocated]\<rparr>"

section \<open>Theorems\<close>

subsection \<open>Sorting\<close>

lemma mset_js_insert: "mset (js_insert cmp x xs) = add_mset x (mset xs)"
  by (induction xs) simp_all

lemma mset_js_sort: "mset (js_sort cmp xs) = mset xs"
  by (induction xs) (simp_all add: mset_js_insert)

lemma set_js_insert: "set (js_insert cmp x xs) = insert x (set xs)"
  using mset_js_insert[of cmp x xs] by (metis set_mset_mset set_mset_add_mset_insert)


lemma sorted_js_insert:
  assumes "consistentComparator cmp"
  shows "sorted_wrt (\<lambda>a b. cmp a b \<le> 0) xs \<Longrightarrow>
         sorted_wrt (\<lambda>a b. cmp a b \<le> 0) (js_insert cmp x xs)"
proof (induction xs)
  case Nil
  show ?case by simp
next
  case (Cons y ys)
  have total: "\<And>a b. \<not> cmp a b \<le> 0 \<Longrightarrow> cmp b a \<le> 0"
    using assms unfolding consistentComparator_def by blast
  have trans: "\<And>a b c. cmp a b \<le> 0 \<Longrightarrow> cmp b c \<le> 0 \<Longrightarrow> cmp a c \<le> 0"
    using assms unfolding consistentComparator_def by blast
  show ?case
  proof (cases "cmp x y \<le> 0")
    case True
    with Cons.prems trans show ?thesis by auto
  next
    case False
    then have "cmp y x \<le> 0" by (rule total)
    with False Cons show ?thesis by (auto simp: set_js_insert)
  qed
qed

lemma sorted_js_sort:
  assumes "consistentComparator cmp"
  shows "sorted_wrt (\<lambda>a b. cmp a b \<le> 0) (js_sort cmp xs)"
  by (induction xs) (simp_all add: sorted_js_insert[OF assms])

lemma consistent_on_fst:
  "consistentComparator cmp \<Longrightarrow> consistentComparator (\<lambda>a b. cmp (fst a) (fst b))"
  unfolding consistentComparator_def by blast











subsection \<open>The year filter\<close>

lemma keepFeature_enabled:
  assumes "getFullYear P [] = NaN"
  shows "keepFeature P yr True f =
           (\<exists>d y. prop_date f = Some d \<and> getFullYear P d = Num y \<and> y \<le> yr)"
proof (cases "prop_date f")
  case None
  then show ?thesis by (simp add: keepFeature_def yearParsed_def)
next
  case (Some d)
  show ?thesis
  proof (cases "d = []")
    case True
    with Some assms show ?thesis by (simp add: keepFeature_def yearParsed_def)
  next
    case False
    with Some show ?thesis
      by (cases "getFullYear P d") (simp_all add: keepFeature_def yearParsed_def)
  qed
qed

lemma filtered_features:
  "features store = Some fs \<Longrightarrow>
   features (currentFiltered P store s) =
     Some (filter (keepFeature P (year s) (yearFilterEnabled s)) fs)"
  by (simp add: currentFiltered_def filteredLocations_def)

text \<open>
  C2. With the year filter enabled, the filtered collection holds exactly the records of
  the store whose date is a text that \<open>new Date(..).getFullYear()\<close> turns into a year, that
  year being at most the threshold; they stay in the store's order. A record without a
  date, or with a date that gives \<open>NaN\<close>, is left out. The filter returns a collection for
  every store and state: nothing in lines 29-43 can throw, every property is read through
  optional chaining. The hypothesis is a fact of JavaScript: \<open>new Date("")\<close> is an
  invalid date. A store without a features array has no records and is passed through.
\<close>

theorem year_filter_enabled:
  assumes "getFullYear P [] = NaN"
  shows "features (filteredLocations P store yr True) =
           map_option
             (filter (\<lambda>f. \<exists>d y. prop_date f = Some d \<and> getFullYear P d = Num y \<and> y \<le> yr))
             (features store)
     \<and> (\<forall>out f. features (filteredLocations P store yr True) = Some out \<and> prop_date f = None
           \<longrightarrow> f \<notin> set out)
     \<and> (\<forall>out f d. features (filteredLocations P store yr True) = Some out \<and>
           prop_date f = Some d \<and> getFullYear P d = NaN \<longrightarrow> f \<notin> set out)"
proof -
  have k: "keepFeature P yr True =
      (\<lambda>f. \<exists>d y. prop_date f = Some d \<and> getFullYear P d = Num y \<and> y \<le> yr)"
    by (rule ext) (rule keepFeature_enabled[OF assms])
  have eq: "features (filteredLocations P store yr True) =
           map_option
             (filter (\<lambda>f. \<exists>d y. prop_date f = Some d \<and> getFullYear P d = Num y \<and> y \<le> yr))
             (features store)"
    by (cases "features store") (simp_all add: filteredLocations_def k)
  show ?thesis unfolding eq by (cases "features store") auto
qed

theorem year_filter_enabled_witness:
  "getFullYear demo_platform [] = NaN
   \<and> features (filteredLocations demo_platform ragged_store 1700 True) =
       map_option
         (filter (\<lambda>f. \<exists>d y. prop_date f = Some d \<and> getFullYear demo_platform d = Num y \<and>
                    y \<le> 1700))
         (features ragged_store)
   \<and> features (filteredLocations demo_platform ragged_store 1700 True) = Some [goedeHoop]"
proof -
  have h: "getFullYear demo_platform [] = NaN" by (simp add: demo_platform_def)
  have v: "features (filteredLocations demo_platform ragged_store 1700 True) = Some [goedeHoop]"
    by code_simp
  show ?thesis using h v year_filter_enabled[OF h, of ragged_store 1700] by blast
qed

text \<open>
  C3. With the year filter disabled, the filtered collection holds every record of the
  store, unchanged and in the store's order, whatever the records' dates are; a store
  without a features array is passed through as it is.
\<close>

theorem filter_disabled_identity:
  "features (filteredLocations P store yr False) = features store"
  by (simp add: filteredLocations_def keepFeature_def split: option.split)

theorem filter_disabled_identity_witness:
  "features (filteredLocations demo_platform ragged_store 1700 False) =
     Some [goedeHoop, undated, misdated, oosthuizen]"
  using filter_disabled_identity[of demo_platform ragged_store 1700]
  by (simp add: ragged_store_def)

subsection \<open>The owner table\<close>

lemma countOwner_unowned: "\<not> truthy (prop_owner f) \<Longrightarrow> countOwner P al f = al"
  by (cases "prop_owner f") (simp_all add: countOwner_def)

lemma countOwner_proto: "prop_owner f = Some ''__proto__'' \<Longrightarrow> countOwner P al f = al"
  by (simp add: countOwner_def assign_def)

lemma allNumbers_lookup:
  "allNumbers al \<Longrightarrow> map_of al ow = Some v \<Longrightarrow> v = Number (numberOf v)"
proof -
  assume a: "allNumbers al" and m: "map_of al ow = Some v"
  from m have "(ow, v) \<in> set al" by (rule map_of_SomeD)
  with a have "snd (ow, v) = Number (numberOf (snd (ow, v)))"
    unfolding allNumbers_def list_all_iff by blast
  then show ?thesis by simp
qed

lemma incremented_ordinary:
  assumes "ordinaryKey ow" and "allNumbers al"
  shows "incremented P al ow = Number (storedNumber al ow + 1)"
proof (cases "map_of al ow")
  case None
  with assms(1) show ?thesis by (simp add: incremented_def storedNumber_def ordinaryKey_def)
next
  case (Some v)
  with assms(2) have "v = Number (numberOf v)" by (rule allNumbers_lookup)
  then obtain c where "v = Number c" by blast
  with Some show ?thesis by (simp add: incremented_def storedNumber_def)
qed

lemma countOwner_ordinary:
  assumes "prop_owner f = Some ow" and "ow \<noteq> []" and "ordinaryKey ow" and "allNumbers al"
  shows "countOwner P al f = AList.update ow (Number (storedNumber al ow + 1)) al"
  using assms
  by (simp add: countOwner_def assign_def incremented_ordinary ordinaryKey_def)

lemma allNumbers_update:
  "allNumbers al \<Longrightarrow> allNumbers (AList.update k (Number c) al)"
  by (induction al) (auto simp: allNumbers_def)

lemma sum_update_bump:
  "v = storedNumber al k + 1 \<Longrightarrow>
   sum_list (map (\<lambda>e. numberOf (snd e)) (AList.update k (Number v) al)) =
   sum_list (map (\<lambda>e. numberOf (snd e)) al) + 1"
  by (induction al) (auto simp: storedNumber_def)

lemma countOwner_cases:
  assumes "\<forall>ow. prop_owner f = Some ow \<longrightarrow> ordinaryKey ow" and "allNumbers al"
  shows "countOwner P al f =
           (case prop_owner f of
              None \<Rightarrow> al
            | Some ow \<Rightarrow> if ow = [] then al
                          else AList.update ow (Number (storedNumber al ow + 1)) al)"
proof (cases "prop_owner f")
  case None
  then show ?thesis by (simp add: countOwner_def)
next
  case (Some ow)
  show ?thesis
  proof (cases "ow = []")
    case True
    with Some show ?thesis by (simp add: countOwner_def)
  next
    case False
    from Some assms(1) have "ordinaryKey ow" by simp
    with Some False assms(2) show ?thesis by (simp add: countOwner_ordinary)
  qed
qed

lemma countOwner_allNumbers:
  assumes "\<forall>ow. prop_owner f = Some ow \<longrightarrow> ordinaryKey ow" and "allNumbers al"
  shows "allNumbers (countOwner P al f)"
  unfolding countOwner_cases[OF assms] using assms(2)
  by (simp add: allNumbers_update split: option.split)

lemma countOwner_sum:
  assumes "\<forall>ow. prop_owner f = Some ow \<longrightarrow> ordinaryKey ow" and "allNumbers al"
  shows "sum_list (map (\<lambda>e. numberOf (snd e)) (countOwner P al f)) =
           sum_list (map (\<lambda>e. numberOf (snd e)) al) + (if truthy (prop_owner f) then 1 else 0)"
  unfolding countOwner_cases[OF assms]
  by (simp add: sum_update_bump split: option.split)

lemma countOwner_distinct:
  assumes "\<forall>ow. prop_owner f = Some ow \<longrightarrow> ordinaryKey ow" and "allNumbers al"
  shows "distinct (map fst al) \<Longrightarrow> distinct (map fst (countOwner P al f))"
  unfolding countOwner_cases[OF assms]
  by (simp add: distinct_update split: option.split)

lemma countOwner_lookup:
  assumes "\<forall>ow. prop_owner f = Some ow \<longrightarrow> ordinaryKey ow" and "allNumbers al"
  shows "storedNumber (countOwner P al f) k =
           storedNumber al k + (if prop_owner f = Some k \<and> k \<noteq> [] then 1 else 0)"
  unfolding countOwner_cases[OF assms]
  by (auto simp add: storedNumber_def update_conv' split: option.split)

lemma countOwner_keys:
  assumes "\<forall>ow. prop_owner f = Some ow \<longrightarrow> ordinaryKey ow" and "allNumbers al"
  shows "fst ` set (countOwner P al f) =
           fst ` set al \<union> {k. prop_owner f = Some k \<and> k \<noteq> []}"
  unfolding countOwner_cases[OF assms]
  by (auto simp add: dom_update split: option.split)

lemma foldl_countOwner_allNumbers:
  assumes "\<forall>f \<in> set fs. \<forall>ow. prop_owner f = Some ow \<longrightarrow> ordinaryKey ow"
  shows "allNumbers al \<Longrightarrow> allNumbers (foldl (countOwner P) al fs)"
  using assms by (induction fs arbitrary: al) (simp_all add: countOwner_allNumbers)

lemma foldl_countOwner_sum:
  assumes "\<forall>f \<in> set fs. \<forall>ow. prop_owner f = Some ow \<longrightarrow> ordinaryKey ow"
  shows "allNumbers al \<Longrightarrow>
     sum_list (map (\<lambda>e. numberOf (snd e)) (foldl (countOwner P) al fs)) =
     sum_list (map (\<lambda>e. numberOf (snd e)) al) + length (filter (\<lambda>f. truthy (prop_owner f)) fs)"
  using assms
  by (induction fs arbitrary: al) (simp_all add: countOwner_allNumbers countOwner_sum)

lemma foldl_countOwner_distinct:
  assumes "\<forall>f \<in> set fs. \<forall>ow. prop_owner f = Some ow \<longrightarrow> ordinaryKey ow"
  shows "allNumbers al \<Longrightarrow> distinct (map fst al) \<Longrightarrow>
     distinct (map fst (foldl (countOwner P) al fs))"
  using assms
  by (induction fs arbitrary: al) (simp_all add: countOwner_allNumbers countOwner_distinct)

lemma foldl_countOwner_lookup:
  assumes "\<forall>f \<in> set fs. \<forall>ow. prop_owner f = Some ow \<longrightarrow> ordinaryKey ow"
  shows "allNumbers al \<Longrightarrow>
     storedNumber (foldl (countOwner P) al fs) k =
     storedNumber al k + length (filter (\<lambda>f. prop_owner f = Some k \<and> k \<noteq> []) fs)"
  using assms
  by (induction fs arbitrary: al) (simp_all add: countOwner_allNumbers countOwner_lookup)

lemma foldl_countOwner_keys:
  assumes "\<forall>f \<in> set fs. \<forall>ow. prop_owner f = Some ow \<longrightarrow> ordinaryKey ow"
  shows "allNumbers al \<Longrightarrow>
     fst ` set (foldl (countOwner P) al fs) =
     fst ` set al \<union> {k. k \<noteq> [] \<and> (\<exists>f \<in> set fs. prop_owner f = Some k)}"
  using assms
proof (induction fs arbitrary: al)
  case Nil
  show ?case by simp
next
  case (Cons f fs)
  from Cons.prems have ord: "\<forall>ow. prop_owner f = Some ow \<longrightarrow> ordinaryKey ow"
    and rest: "\<forall>g \<in> set fs. \<forall>ow. prop_owner g = Some ow \<longrightarrow> ordinaryKey ow"
    by simp_all
  have num: "allNumbers (countOwner P al f)"
    using ord Cons.prems(1) by (rule countOwner_allNumbers)
  have "fst ` set (foldl (countOwner P) al (f # fs)) =
        fst ` set (countOwner P al f) \<union>
          {k. k \<noteq> [] \<and> (\<exists>g \<in> set fs. prop_owner g = Some k)}"
    using Cons.IH[OF num rest] by simp
  also have "\<dots> = fst ` set al \<union> {k. k \<noteq> [] \<and> (\<exists>g \<in> set (f # fs). prop_owner g = Some k)}"
    unfolding countOwner_keys[OF ord Cons.prems(1)] by auto
  finally show ?case .
qed

lemma uniqueOwners_entries:
  assumes "features filtered = Some fs"
  shows "uniqueOwners P filtered =
           Inr (js_sort (\<lambda>a b. localeCompare P (fst a) (fst b)) (foldl (countOwner P) [] fs))"
  using assms by (simp add: uniqueOwners_def)

lemma entry_count:
  assumes "\<forall>f \<in> set fs. \<forall>ow. prop_owner f = Some ow \<longrightarrow> ordinaryKey ow"
    and "(ow, v) \<in> set (foldl (countOwner P) [] fs)"
  shows "ow \<noteq> [] \<and> v = Number (length (filter (\<lambda>f. prop_owner f = Some ow) fs))"
proof -
  have e: "allNumbers []" by (simp add: allNumbers_def)
  have d: "distinct (map fst (foldl (countOwner P) [] fs))"
    using foldl_countOwner_distinct[OF assms(1) e] by simp
  have n: "allNumbers (foldl (countOwner P) [] fs)"
    using assms(1) e by (rule foldl_countOwner_allNumbers)
  from assms(2) have "ow \<in> fst ` set (foldl (countOwner P) [] fs)" by force
  then have ne: "ow \<noteq> []" unfolding foldl_countOwner_keys[OF assms(1) e] by simp
  from d assms(2) have m: "map_of (foldl (countOwner P) [] fs) ow = Some v" by simp
  with n have v: "v = Number (numberOf v)" by (rule allNumbers_lookup)
  from m have "numberOf v = storedNumber (foldl (countOwner P) [] fs) ow"
    by (simp add: storedNumber_def)
  also have "\<dots> = length (filter (\<lambda>f. prop_owner f = Some ow) fs)"
    unfolding foldl_countOwner_lookup[OF assms(1) e] using ne by (simp add: storedNumber_def)
  finally show ?thesis using ne v by simp
qed

text \<open>
  What is proved of the table holds for the entries of \<open>ownerCounts\<close> sorted from any
  order, so it does not depend on the order in which \<open>Object.entries\<close> lists them.
\<close>

lemma sorted_entries:
  assumes ord: "\<forall>f \<in> set fs. \<forall>ow. prop_owner f = Some ow \<longrightarrow> ordinaryKey ow"
    and perm: "mset es = mset (foldl (countOwner P) [] fs)"
    and cons: "consistentComparator (localeCompare P)"
  shows "sorted_wrt (\<lambda>a b. localeCompare P (fst a) (fst b) \<le> 0)
           (js_sort (\<lambda>a b. localeCompare P (fst a) (fst b)) es)
     \<and> distinct (map fst (js_sort (\<lambda>a b. localeCompare P (fst a) (fst b)) es))
     \<and> set (map fst (js_sort (\<lambda>a b. localeCompare P (fst a) (fst b)) es)) =
         {ow. ow \<noteq> [] \<and> (\<exists>f \<in> set fs. prop_owner f = Some ow)}
     \<and> (\<forall>ow v. (ow, v) \<in> set (js_sort (\<lambda>a b. localeCompare P (fst a) (fst b)) es) \<longrightarrow>
            v = Number (length (filter (\<lambda>f. prop_owner f = Some ow) fs)))
     \<and> sum_list (map (\<lambda>e. numberOf (snd e))
           (js_sort (\<lambda>a b. localeCompare P (fst a) (fst b)) es)) =
         length (filter (\<lambda>f. truthy (prop_owner f)) fs)"
proof -
  let ?cmp = "\<lambda>a b :: string \<times> count. localeCompare P (fst a) (fst b)"
  let ?al = "foldl (countOwner P) [] fs"
  let ?out = "js_sort ?cmp es"
  have e: "allNumbers []" by (simp add: allNumbers_def)
  have m: "mset ?out = mset ?al" using perm by (simp add: mset_js_sort)
  then have s: "set ?out = set ?al" by (metis set_mset_mset)
  have "consistentComparator ?cmp" using cons by (rule consistent_on_fst)
  then have sorted: "sorted_wrt (\<lambda>a b. ?cmp a b \<le> 0) ?out" by (rule sorted_js_sort)
  have "mset (map fst ?out) = mset (map fst ?al)" using m by (metis mset_map)
  moreover have "distinct (map fst ?al)"
    using foldl_countOwner_distinct[OF ord e] by simp
  ultimately have dist: "distinct (map fst ?out)" by (metis mset_eq_imp_distinct_iff)
  have keys: "set (map fst ?out) = {ow. ow \<noteq> [] \<and> (\<exists>f \<in> set fs. prop_owner f = Some ow)}"
    using foldl_countOwner_keys[OF ord e, of P] by (simp add: s)
  have counts: "\<forall>ow v. (ow, v) \<in> set ?out \<longrightarrow>
                  v = Number (length (filter (\<lambda>f. prop_owner f = Some ow) fs))"
    using entry_count[OF ord, of _ _ P] by (simp add: s)
  have "mset (map (\<lambda>e. numberOf (snd e)) ?out) = mset (map (\<lambda>e. numberOf (snd e)) ?al)"
    using m by (metis mset_map)
  then have "sum_list (map (\<lambda>e. numberOf (snd e)) ?out) =
             sum_list (map (\<lambda>e. numberOf (snd e)) ?al)"
    by (metis sum_mset_sum_list)
  then have total: "sum_list (map (\<lambda>e. numberOf (snd e)) ?out) =
                    length (filter (\<lambda>f. truthy (prop_owner f)) fs)"
    by (simp add: foldl_countOwner_sum[OF ord e])
  from sorted dist keys counts total show ?thesis by blast
qed

text \<open>
  When no owner text is the name of something an empty object inherits, the table is the
  one a dictionary gives: one entry for each owner text that some record carries, its
  count the number of records with exactly that owner, the counts adding up to the
  number of records that have an owner, the entries in ascending order of
  \<open>localeCompare\<close>.
\<close>

lemma owner_table_of_ordinary_owners:
  assumes "features filtered = Some fs"
    and "\<forall>f \<in> set fs. \<forall>ow. prop_owner f = Some ow \<longrightarrow> ordinaryKey ow"
    and "consistentComparator (localeCompare P)"
  shows "\<exists>entries. uniqueOwners P filtered = Inr entries
     \<and> sorted_wrt (\<lambda>a b. localeCompare P (fst a) (fst b) \<le> 0) entries
     \<and> distinct (map fst entries)
     \<and> set (map fst entries) = {ow. ow \<noteq> [] \<and> (\<exists>f \<in> set fs. prop_owner f = Some ow)}
     \<and> (\<forall>ow v. (ow, v) \<in> set entries \<longrightarrow>
            v = Number (length (filter (\<lambda>f. prop_owner f = Some ow) fs)))
     \<and> sum_list (map (\<lambda>e. numberOf (snd e)) entries) =
         length (filter (\<lambda>f. truthy (prop_owner f)) fs)"
  unfolding uniqueOwners_entries[OF assms(1)]
  using sorted_entries[OF assms(2) refl assms(3)] by blast

text \<open>
  C5. The claim: for every filtered collection the table groups the records by exact
  owner text, each count is the number of records with that owner, and the counts add up
  to the number of records that have an owner. The code misses the keys that
  \<open>ownerCounts = {}\<close> inherits. In a collection with the owners \<open>Abe\<close>, \<open>__proto__\<close> and
  \<open>__proto__\<close> the two records of \<open>__proto__\<close> get no entry, and the counts add up to 1
  for three records with an owner: the read finds the prototype, and the assignment is
  swallowed by the inherited setter. In a collection with the owner \<open>constructor\<close> the
  count of that owner is a text, the inherited method with \<open>1\<close> appended, not the number
  1.
\<close>

theorem owner_table_inherited_keys:
  "features proto_store = Some [abe, proto_a, proto_b]
   \<and> prop_owner proto_a = Some ''__proto__'' \<and> prop_owner proto_b = Some ''__proto__''
   \<and> uniqueOwners demo_platform proto_store = Inr [(''Abe'', Number 1)]
   \<and> features constructor_store = Some [abe, constructor_a]
   \<and> prop_owner constructor_a = Some ''constructor''
   \<and> uniqueOwners demo_platform constructor_store =
       Inr [(''Abe'', Number 1),
            (''constructor'', Text ''function Object() { [native code] }1'')]"
  by code_simp

subsection \<open>The farm list\<close>


lemma mapThrowing_throws:
  "\<exists>x \<in> set xs. g x = Inl TypeError \<Longrightarrow> mapThrowing g xs = Inl TypeError"
proof (induction xs)
  case Nil
  then show ?case by simp
next
  case (Cons x xs)
  show ?case
  proof (cases "g x")
    case (Inl e)
    then show ?thesis by (cases e) simp
  next
    case (Inr y)
    with Cons.prems have "\<exists>x \<in> set xs. g x = Inl TypeError" by auto
    then have "mapThrowing g xs = Inl TypeError" by (rule Cons.IH)
    with Inr show ?thesis by simp
  qed
qed


lemma toFarm_unlocated: "getBounds P f = Unset \<Longrightarrow> toFarm P f = Inl TypeError"
  by (simp add: toFarm_def)










lemma farm_ranking_throws:
  assumes "features filtered = Some fs"
    and "\<exists>f \<in> set fs. getBounds P f = Unset"
  shows "uniqueFarms P filtered rank = Inl TypeError"
proof -
  from assms(2) have "\<exists>f \<in> set fs. toFarm P f = Inl TypeError"
    using toFarm_unlocated by blast
  then have "mapThrowing (toFarm P) fs = Inl TypeError" by (rule mapThrowing_throws)
  with assms(1) show ?thesis by (simp add: uniqueFarms_def)
qed

lemma unlocated_store_throws:
  "uniqueFarms demo_platform unlocated_store True = Inl TypeError"
  by code_simp



subsection \<open>The search\<close>

lemma searchEach_last:
  "searchEach P q fs (sel, found) =
     (if filter (isMatch P q) fs = [] then (sel, found)
      else (Some (getBounds P (last (filter (isMatch P q) fs))), True))"
  by (induction fs arbitrary: sel found) simp_all

lemma isMatch_iff:
  "isMatch P q f = (\<exists>n. prop_name f = Some n \<and> toLowerCase P n = toLowerCase P q)"
  by (simp add: isMatch_def split: option.split)

lemma handleSearch_miss:
  assumes "features (currentFiltered P store s) = Some shown"
    and "filter (isMatch P (searchQuery s)) shown = []"
  shows "handleSearch P store s = Inr (s\<lparr>alerts := alerts s @ [''Region not found!'']\<rparr>)"
  using assms by (simp add: handleSearch_def searchEach_last)

lemma handleSearch_hit:
  assumes "features (currentFiltered P store s) = Some shown"
    and "filter (isMatch P (searchQuery s)) shown \<noteq> []"
  shows "handleSearch P store s =
    Inr (s\<lparr>selectedBounds := Some (getBounds P (last (filter (isMatch P (searchQuery s)) shown)))\<rparr>)"
  using assms by (simp add: handleSearch_def searchEach_last)

lemma filter_empty_list_ex: "(filter p xs = []) = (\<not> list_ex p xs)"
  by (induction xs) simp_all

text \<open>
  C1, as the specification has it: when more than one record of the filtered collection
  matches the query, the search returns the bounds of the first of them and ignores the
  later ones. The loop of lines 78-87 does not stop at a match: it calls
  \<open>setSelectedBounds\<close> for every matching record, and the value set last stands. In the
  store of the two twins the search for \<open>twin\<close> does not end with the bounds of the first.
\<close>

theorem search_first_match_counterexample:
  "features (currentFiltered demo_platform twin_store twin_query) = Some [twin_a, twin_b]
   \<and> isMatch demo_platform (searchQuery twin_query) twin_a
   \<and> isMatch demo_platform (searchQuery twin_query) twin_b
   \<and> getBounds demo_platform twin_a = box 1 1 2 2
   \<and> getBounds demo_platform twin_b = box 5 5 6 6
   \<and> handleSearch demo_platform twin_store twin_query =
       Inr (twin_query\<lparr>selectedBounds := Some (box 5 5 6 6)\<rparr>)
   \<and> handleSearch demo_platform twin_store twin_query \<noteq>
       Inr (twin_query\<lparr>selectedBounds := Some (getBounds demo_platform twin_a)\<rparr>)"
  by code_simp

text \<open>
  C1, amended: when more than one record of the filtered collection matches the query,
  the search ends with the bounds of the last matching record in the collection's order,
  and raises no notice; the earlier matches have no effect on the result.
\<close>

theorem search_last_match:
  assumes "features (currentFiltered P store s) = Some shown"
    and "1 < length (filter (isMatch P (searchQuery s)) shown)"
  shows "handleSearch P store s =
    Inr (s\<lparr>selectedBounds := Some (getBounds P (last (filter (isMatch P (searchQuery s)) shown)))\<rparr>)"
proof -
  from assms(2) have "filter (isMatch P (searchQuery s)) shown \<noteq> []" by auto
  with assms(1) show ?thesis by (rule handleSearch_hit)
qed

theorem search_last_match_witness:
  "features (currentFiltered demo_platform twin_store twin_query) = Some [twin_a, twin_b]
   \<and> 1 < length (filter (isMatch demo_platform (searchQuery twin_query)) [twin_a, twin_b])
   \<and> handleSearch demo_platform twin_store twin_query =
       Inr (twin_query\<lparr>selectedBounds := Some (box 5 5 6 6)\<rparr>)"
proof -
  have h1: "features (currentFiltered demo_platform twin_store twin_query) = Some [twin_a, twin_b]"
    by code_simp
  have h2: "1 < length (filter (isMatch demo_platform (searchQuery twin_query)) [twin_a, twin_b])"
    by code_simp
  have e: "getBounds demo_platform
             (last (filter (isMatch demo_platform (searchQuery twin_query)) [twin_a, twin_b])) =
           box 5 5 6 6"
    by code_simp
  show ?thesis using h1 h2 search_last_match[OF h1 h2] unfolding e by simp
qed

text \<open>
  C4. A record matches the query when it has a name and the name and the query are equal
  after \<open>toLowerCase\<close>. The search looks at the records of the filtered collection only:
  it succeeds exactly when one of those matches, and then its bounds are those of a
  matching record of the filtered collection; otherwise, and so when every matching
  record of the store is hidden by the year filter, it raises the notice and changes
  nothing else.
\<close>

theorem search_within_filtered:
  assumes "features store = Some fs"
  shows "(\<forall>f. isMatch P (searchQuery s) f =
            (\<exists>n. prop_name f = Some n \<and> toLowerCase P n = toLowerCase P (searchQuery s)))
     \<and> (\<exists>s'. handleSearch P store s = Inr s' \<and>
          (let shown = filter (keepFeature P (year s) (yearFilterEnabled s)) fs
           in if list_ex (isMatch P (searchQuery s)) shown
              then alerts s' = alerts s \<and>
                   list_ex (\<lambda>f. isMatch P (searchQuery s) f \<and>
                               selectedBounds s' = Some (getBounds P f)) shown
              else s' = s\<lparr>alerts := alerts s @ [''Region not found!'']\<rparr>))"
proof -
  let ?shown = "filter (keepFeature P (year s) (yearFilterEnabled s)) fs"
  let ?hits = "filter (isMatch P (searchQuery s)) ?shown"
  have f: "features (currentFiltered P store s) = Some ?shown"
    using assms by (rule filtered_features)
  have run: "\<exists>s'. handleSearch P store s = Inr s' \<and>
          (if list_ex (isMatch P (searchQuery s)) ?shown
              then alerts s' = alerts s \<and>
                   list_ex (\<lambda>f. isMatch P (searchQuery s) f \<and>
                               selectedBounds s' = Some (getBounds P f)) ?shown
              else s' = s\<lparr>alerts := alerts s @ [''Region not found!'']\<rparr>)"
  proof (cases "?hits = []")
    case True
    then have "\<not> list_ex (isMatch P (searchQuery s)) ?shown"
      unfolding filter_empty_list_ex .
    with handleSearch_miss[OF f True] show ?thesis by simp
  next
    case False
    then have ex: "list_ex (isMatch P (searchQuery s)) ?shown"
      unfolding filter_empty_list_ex by blast
    from False have "last ?hits \<in> set ?hits" by (rule last_in_set)
    then have "last ?hits \<in> set ?shown" and "isMatch P (searchQuery s) (last ?hits)"
      by simp_all
    then have "list_ex (\<lambda>f. isMatch P (searchQuery s) f \<and>
        Some (getBounds P (last ?hits)) = Some (getBounds P f)) ?shown"
      unfolding list_ex_iff by blast
    with handleSearch_hit[OF f False] ex show ?thesis by simp
  qed
  show ?thesis unfolding Let_def using run isMatch_iff[of P "searchQuery s"] by blast
qed

theorem search_within_filtered_witness:
  "features demo_store = Some [goedeHoop, nieuwland, oosthuizen]
   \<and> isMatch demo_platform (searchQuery hidden_query) oosthuizen
   \<and> handleSearch demo_platform demo_store hidden_query =
       Inr (hidden_query\<lparr>alerts := [''Region not found!'']\<rparr>)"
proof -
  have h: "features demo_store = Some [goedeHoop, nieuwland, oosthuizen]"
    by (simp add: demo_store_def)
  have m: "isMatch demo_platform (searchQuery hidden_query) oosthuizen" by code_simp
  have n: "\<not> list_ex (isMatch demo_platform (searchQuery hidden_query))
             (filter (keepFeature demo_platform (year hidden_query) (yearFilterEnabled hidden_query))
                [goedeHoop, nieuwland, oosthuizen])"
    by code_simp
  have a: "alerts hidden_query = []" by code_simp
  from search_within_filtered[OF h, of demo_platform hidden_query] n a
  have "handleSearch demo_platform demo_store hidden_query =
       Inr (hidden_query\<lparr>alerts := [''Region not found!'']\<rparr>)"
    unfolding Let_def by auto
  with h m show ?thesis by simp
qed

lemma dispatch_selectedBounds:
  assumes "dispatch P store a s = Inr s'" and "a \<noteq> Submit"
  shows "selectedBounds s' = selectedBounds s"
  using assms by (cases a) (auto simp: toggleOwners_def)

text \<open>
  C7. A search that finds no matching record in the filtered collection returns the state
  as it was, with the notice added: the selected bounds keep their value. An action that
  changes the selected bounds is a submitted search that found a match (and raised no
  notice); in particular toggling the year filter and moving the slider leave the bounds
  as they are.
\<close>

theorem failed_search_keeps_bounds:
  "(\<forall>shown. features (currentFiltered P store s) = Some shown \<and>
       \<not> list_ex (isMatch P (searchQuery s)) shown
       \<longrightarrow> handleSearch P store s = Inr (s\<lparr>alerts := alerts s @ [''Region not found!'']\<rparr>))
   \<and> (\<forall>a s'. dispatch P store a s = Inr s' \<and> selectedBounds s' \<noteq> selectedBounds s
       \<longrightarrow> a = Submit \<and> alerts s' = alerts s \<and>
           (\<exists>shown. features (currentFiltered P store s) = Some shown \<and>
                list_ex (isMatch P (searchQuery s)) shown))
   \<and> (\<forall>s'. dispatch P store ToggleYearFilter s = Inr s' \<longrightarrow> selectedBounds s' = selectedBounds s)
   \<and> (\<forall>y s'. dispatch P store (SetYear y) s = Inr s' \<longrightarrow> selectedBounds s' = selectedBounds s)"
proof -
  have miss: "\<forall>shown. features (currentFiltered P store s) = Some shown \<and>
       \<not> list_ex (isMatch P (searchQuery s)) shown
       \<longrightarrow> handleSearch P store s = Inr (s\<lparr>alerts := alerts s @ [''Region not found!'']\<rparr>)"
    using handleSearch_miss[of P store s] by (simp add: filter_empty_list_ex)
  have only: "\<forall>a s'. dispatch P store a s = Inr s' \<and> selectedBounds s' \<noteq> selectedBounds s
       \<longrightarrow> a = Submit \<and> alerts s' = alerts s \<and>
           (\<exists>shown. features (currentFiltered P store s) = Some shown \<and>
                list_ex (isMatch P (searchQuery s)) shown)"
  proof (intro allI impI)
    fix a s'
    assume h: "dispatch P store a s = Inr s' \<and> selectedBounds s' \<noteq> selectedBounds s"
    then have sub: "a = Submit" using dispatch_selectedBounds[of P store a s s'] by blast
    with h have hs: "handleSearch P store s = Inr s'" by simp
    then obtain shown where sh: "features (currentFiltered P store s) = Some shown"
      by (cases "features (currentFiltered P store s)") (simp_all add: handleSearch_def)
    have "list_ex (isMatch P (searchQuery s)) shown"
    proof (rule ccontr)
      assume "\<not> list_ex (isMatch P (searchQuery s)) shown"
      with miss sh hs have "s' = s\<lparr>alerts := alerts s @ [''Region not found!'']\<rparr>" by simp
      with h show False by simp
    qed
    moreover from this have "filter (isMatch P (searchQuery s)) shown \<noteq> []"
      by (simp add: filter_empty_list_ex)
    from handleSearch_hit[OF sh this] hs have "alerts s' = alerts s" by auto
    ultimately show "a = Submit \<and> alerts s' = alerts s \<and>
           (\<exists>shown. features (currentFiltered P store s) = Some shown \<and>
                list_ex (isMatch P (searchQuery s)) shown)"
      using sub sh by blast
  qed
  have t: "\<forall>s'. dispatch P store ToggleYearFilter s = Inr s' \<longrightarrow> selectedBounds s' = selectedBounds s"
    by auto
  have y: "\<forall>y s'. dispatch P store (SetYear y) s = Inr s' \<longrightarrow> selectedBounds s' = selectedBounds s"
    by auto
  from miss only t y show ?thesis by blast
qed

theorem failed_search_keeps_bounds_witness:
  "features (currentFiltered demo_platform demo_store hidden_query) = Some [goedeHoop, nieuwland]
   \<and> \<not> list_ex (isMatch demo_platform (searchQuery hidden_query)) [goedeHoop, nieuwland]
   \<and> handleSearch demo_platform demo_store hidden_query =
       Inr (hidden_query\<lparr>alerts := alerts hidden_query @ [''Region not found!'']\<rparr>)
   \<and> selectedBounds (hidden_query\<lparr>alerts := alerts hidden_query @ [''Region not found!'']\<rparr>) =
       Some (box 18 (- 34) 19 (- 33))"
proof -
  have h: "features (currentFiltered demo_platform demo_store hidden_query) =
       Some [goedeHoop, nieuwland]"
    by code_simp
  have n: "\<not> list_ex (isMatch demo_platform (searchQuery hidden_query)) [goedeHoop, nieuwland]"
    by code_simp
  have b: "selectedBounds (hidden_query\<lparr>alerts := alerts hidden_query @ [''Region not found!'']\<rparr>) =
       Some (box 18 (- 34) 19 (- 33))"
    by (simp add: hidden_query_def)
  from failed_search_keeps_bounds[of demo_platform demo_store hidden_query] h n
  have "handleSearch demo_platform demo_store hidden_query =
       Inr (hidden_query\<lparr>alerts := alerts hidden_query @ [''Region not found!'']\<rparr>)"
    by blast
  with h n b show ?thesis by simp
qed

subsection \<open>The owner list and the highlight\<close>

lemma handleSearch_frame:
  "handleSearch P store s = Inr s' \<Longrightarrow>
   showOwners s' = showOwners s \<and> highlightedOwner s' = highlightedOwner s"
  by (auto simp: handleSearch_def split: option.splits prod.splits)

lemma hidden_list_no_highlight:
  "reachable P store s \<Longrightarrow> \<not> showOwners s \<Longrightarrow> highlightedOwner s = None"
proof (induction rule: reachable.induct)
  case reachable_initial
  show ?case by (simp add: initial_state_def)
next
  case (reachable_step s a s')
  then show ?case
    by (cases a) (auto simp: toggleOwners_def dest: handleSearch_frame split: if_splits)
qed

lemma highlighted_reachable: "reachable demo_platform demo_store highlighted_state"
proof -
  let ?s1 = "toggleOwners initial_state"
  have "reachable demo_platform demo_store ?s1"
    by (rule reachable_step[OF reachable_initial, of _ _ ToggleOwners]) simp_all
  moreover have "offered demo_platform demo_store ?s1 (SelectOwner ''Van Riebeeck'')"
    by code_simp
  moreover have "dispatch demo_platform demo_store (SelectOwner ''Van Riebeeck'') ?s1 =
      Inr highlighted_state"
    by code_simp
  ultimately show ?thesis by (rule reachable_step)
qed

text \<open>
  C8. In every state the component can reach, a click on the header of the owner list
  that hides the list sets the highlighted owner to none, and a click that shows the list
  leaves it at none: a hidden list never has a highlighted owner, and showing the list
  does not touch the highlight. Hiding and showing the list again ends with no owner
  highlighted.
\<close>

theorem owner_list_toggle:
  assumes "reachable P store s"
  shows "dispatch P store ToggleOwners s = Inr (toggleOwners s)
     \<and> (showOwners s \<longrightarrow>
           \<not> showOwners (toggleOwners s) \<and> highlightedOwner (toggleOwners s) = None)
     \<and> (\<not> showOwners s \<longrightarrow>
           showOwners (toggleOwners s) \<and> highlightedOwner (toggleOwners s) = None
           \<and> highlightedOwner (toggleOwners s) = highlightedOwner s)
     \<and> (showOwners s \<longrightarrow> highlightedOwner (toggleOwners (toggleOwners s)) = None)"
  using hidden_list_no_highlight[OF assms] by (simp add: toggleOwners_def)

theorem owner_list_toggle_witness:
  "reachable demo_platform demo_store highlighted_state
   \<and> showOwners highlighted_state
   \<and> highlightedOwner highlighted_state = Some ''Van Riebeeck''
   \<and> \<not> showOwners (toggleOwners highlighted_state)
   \<and> highlightedOwner (toggleOwners highlighted_state) = None
   \<and> highlightedOwner (toggleOwners (toggleOwners highlighted_state)) = None"
proof -
  have s: "showOwners highlighted_state"
    and o: "highlightedOwner highlighted_state = Some ''Van Riebeeck''"
    by (simp_all add: highlighted_state_def)
  from owner_list_toggle[OF highlighted_reachable] s o highlighted_reachable
  show ?thesis by blast
qed

subsection \<open>The style of a polygon\<close>

text \<open>
  C9. For every highlighted owner, two features of which either both or neither have that
  owner get the same style: stroke colour, stroke weight, fill colour and fill opacity
  depend on nothing else of the feature.
\<close>

theorem style_depends_on_owner_match:
  assumes "(prop_owner f1 = h) = (prop_owner f2 = h)"
  shows "style h f1 = style h f2"
  using assms by (simp add: style_def isHighlighted_def)

theorem style_depends_on_owner_match_witness:
  "(prop_owner goedeHoop = Some ''Van Riebeeck'') = (prop_owner nieuwland = Some ''Van Riebeeck'')
   \<and> goedeHoop \<noteq> nieuwland
   \<and> style (Some ''Van Riebeeck'') goedeHoop = style (Some ''Van Riebeeck'') nieuwland"
proof -
  have h: "(prop_owner goedeHoop = Some ''Van Riebeeck'') =
           (prop_owner nieuwland = Some ''Van Riebeeck'')"
    by code_simp
  have d: "goedeHoop \<noteq> nieuwland" by code_simp
  from style_depends_on_owner_match[OF h] h d show ?thesis by blast
qed

subsection \<open>The two versions of the component\<close>

text \<open>
  C10. The year filter of src/unnamed/part_000 (lines 25-39) and that of src/src/App.js
  (lines 29-43) derive the same collection from every store, year and flag, and the
  test in the search loop of the one (line 47) holds of a query and a record exactly
  when that of the other (line 80) does.
\<close>

theorem versions_agree:
  "filteredLocations_part000 P store yr en = filteredLocations P store yr en
   \<and> isMatch_part000 P q f = isMatch P q f"
proof -
  have y: "yearParsed_part000 P = yearParsed P"
    by (rule ext) (simp add: yearParsed_part000_def yearParsed_def)
  have k: "(\<lambda>feature. if \<not> en then True
              else \<not> isNaN (yearParsed_part000 P feature) \<and>
                   num_le (yearParsed_part000 P feature) yr)
           = keepFeature P yr en"
    by (rule ext) (simp add: keepFeature_def y)
  have "filteredLocations_part000 P store yr en = filteredLocations P store yr en"
    unfolding filteredLocations_part000_def filteredLocations_def k ..
  moreover have "isMatch_part000 P q f = isMatch P q f"
    by (simp add: isMatch_part000_def isMatch_def)
  ultimately show ?thesis by simp
qed

theorem versions_agree_witness:
  "features (filteredLocations_part000 demo_platform ragged_store 1700 True) = Some [goedeHoop]
   \<and> isMatch_part000 demo_platform ''GOEDE HOOP'' goedeHoop"
proof -
  have "features (filteredLocations demo_platform ragged_store 1700 True) = Some [goedeHoop]"
    by code_simp
  moreover have "isMatch demo_platform ''GOEDE HOOP'' goedeHoop" by code_simp
  ultimately show ?thesis
    using versions_agree[of demo_platform ragged_store 1700 True "''GOEDE HOOP''" goedeHoop]
    by simp
qed

end
